theory Spec2Isabelle
  imports Complex_Main
begin

section \<open>Numbers\<close>

text \<open>
  A JavaScript number is modelled as a real or as \<open>NaN\<close>. Rounding, signed zero and
  the infinities of IEEE-754 are idealised away: arithmetic on \<open>Num\<close> is exact. \<open>NaN\<close>
  is kept because the code produces it without any floating-point effect, by
  arithmetic on \<open>undefined\<close> (a property that an object lacks, an index outside an
  array). A value that may be \<open>undefined\<close> is a \<open>number option\<close>.
\<close>

datatype number = Num real | NaN

instantiation number :: "{plus, minus, times, uminus}"
begin

fun plus_number :: "number \<Rightarrow> number \<Rightarrow> number" where
  "plus_number (Num a) (Num b) = Num (a + b)"
| "plus_number _ _ = NaN"

fun minus_number :: "number \<Rightarrow> number \<Rightarrow> number" where
  "minus_number (Num a) (Num b) = Num (a - b)"
| "minus_number _ _ = NaN"

fun times_number :: "number \<Rightarrow> number \<Rightarrow> number" where
  "times_number (Num a) (Num b) = Num (a * b)"
| "times_number _ _ = NaN"

fun uminus_number :: "number \<Rightarrow> number" where
  "uminus_number (Num a) = Num (- a)"
| "uminus_number NaN = NaN"

instance ..

end

text \<open>
  \<open>a / b\<close>. The model has no infinities, so a division by zero is \<open>NaN\<close> here.
  \<open>normalise\<close> never divides by zero (\<open>normalise_divisor_nonzero\<close> below), the depth
  average divides by 3, and \<open>updateProjectionMatrix\<close> divides by zero only when two
  opposite bounds are equal.
\<close>

fun ndiv :: "number \<Rightarrow> number \<Rightarrow> number" where
  "ndiv (Num a) (Num b) = (if b = 0 then NaN else Num (a / b))"
| "ndiv _ _ = NaN"

text \<open>\<open>a < b\<close>: false as soon as one side is \<open>NaN\<close>.\<close>

fun nless :: "number \<Rightarrow> number \<Rightarrow> bool" where
  "nless (Num a) (Num b) = (a < b)"
| "nless _ _ = False"

text \<open>\<open>ToNumber\<close> of a value that may be \<open>undefined\<close>.\<close>

fun toNumber :: "number option \<Rightarrow> number" where
  "toNumber None = NaN"
| "toNumber (Some a) = a"

text \<open>\<open>v || d\<close> for a number \<open>v\<close> that may be \<open>undefined\<close>: \<open>undefined\<close>, \<open>NaN\<close> and
  \<open>0\<close> are falsy.\<close>

fun orElse :: "number option \<Rightarrow> number \<Rightarrow> number" where
  "orElse None d = d"
| "orElse (Some NaN) d = d"
| "orElse (Some (Num a)) d = (if a = 0 then d else Num a)"

text \<open>A default parameter \<open>(p = d)\<close>: only \<open>undefined\<close> is replaced.\<close>

fun default_param :: "number option \<Rightarrow> number \<Rightarrow> number" where
  "default_param None d = d"
| "default_param (Some a) d = a"

text \<open>\<open>Math.hypot\<close> of two and of three numbers.\<close>

fun hypot2 :: "number \<Rightarrow> number \<Rightarrow> number" where
  "hypot2 (Num a) (Num b) = Num (sqrt (a * a + b * b))"
| "hypot2 _ _ = NaN"

fun hypot3 :: "number \<Rightarrow> number \<Rightarrow> number \<Rightarrow> number" where
  "hypot3 (Num a) (Num b) (Num c) = Num (sqrt (a * a + b * b + c * c))"
| "hypot3 _ _ _ = NaN"

fun ncos :: "number \<Rightarrow> number" where
  "ncos (Num a) = Num (cos a)"
| "ncos NaN = NaN"

fun nsin :: "number \<Rightarrow> number" where
  "nsin (Num a) = Num (sin a)"
| "nsin NaN = NaN"


section \<open>Vectors (vector.js)\<close>

text \<open>
  \<open>Vector\<close> is abstract; its instances are \<open>Vector2 x y w\<close> (type \<open>"2d"\<close>, components
  \<open>["x", "y"]\<close>) and \<open>Vector3 x y z w\<close> (type \<open>"3d"\<close>, components \<open>["x", "y", "z"]\<close>).
\<close>

datatype vector = Vector2 number number number | Vector3 number number number number

text \<open>What the source throws: \<open>TypeError\<close>, by itself or by the engine, and \<open>Error\<close>.\<close>

datatype error = TypeError | Error

text \<open>The constructors: components are \<open>args[i] || 0\<close>, \<open>w\<close> is a default parameter.\<close>

definition new_Vector2 :: "number option \<Rightarrow> number option \<Rightarrow> number option \<Rightarrow> vector" where
  "new_Vector2 x y w =
     Vector2 (orElse (Some (default_param x (Num 0))) (Num 0))
             (orElse (Some (default_param y (Num 0))) (Num 0))
             (default_param w (Num 1))"

definition new_Vector3 ::
  "number option \<Rightarrow> number option \<Rightarrow> number option \<Rightarrow> number option \<Rightarrow> vector" where
  "new_Vector3 x y z w =
     Vector3 (orElse (Some (default_param x (Num 0))) (Num 0))
             (orElse (Some (default_param y (Num 0))) (Num 0))
             (orElse (Some (default_param z (Num 0))) (Num 0))
             (default_param w (Num 1))"

text \<open>Property reads \<open>v.x\<close>, \<open>v.y\<close>, \<open>v.z\<close>, \<open>v.w\<close>; a \<open>Vector2\<close> has no \<open>z\<close>.\<close>

fun vx :: "vector \<Rightarrow> number option" where
  "vx (Vector2 x y w) = Some x"
| "vx (Vector3 x y z w) = Some x"

fun vy :: "vector \<Rightarrow> number option" where
  "vy (Vector2 x y w) = Some y"
| "vy (Vector3 x y z w) = Some y"

fun vz :: "vector \<Rightarrow> number option" where
  "vz (Vector2 x y w) = None"
| "vz (Vector3 x y z w) = Some z"

fun vw :: "vector \<Rightarrow> number" where
  "vw (Vector2 x y w) = w"
| "vw (Vector3 x y z w) = w"

text \<open>\<open>createVector\<close>: a fresh vector of the receiver's type.\<close>

fun createVector :: "vector \<Rightarrow> vector" where
  "createVector (Vector2 x y w) = new_Vector2 None None None"
| "createVector (Vector3 x y z w) = new_Vector3 None None None None"

text \<open>
  The loop \<open>for(let i of this.components) res[i] = this[i] op vec[i]\<close> on
  \<open>res = this.createVector()\<close>: it writes the receiver's components only, reads the
  argument's property of the same name (\<open>undefined\<close> when it has none), and leaves
  the \<open>w\<close> of \<open>res\<close> as the constructor set it.
\<close>

fun componentwise :: "(number \<Rightarrow> number \<Rightarrow> number) \<Rightarrow> vector \<Rightarrow> vector \<Rightarrow> vector" where
  "componentwise f (Vector2 x y w) vec =
     (let res = createVector (Vector2 x y w)
      in Vector2 (f x (toNumber (vx vec))) (f y (toNumber (vy vec))) (vw res))"
| "componentwise f (Vector3 x y z w) vec =
     (let res = createVector (Vector3 x y z w)
      in Vector3 (f x (toNumber (vx vec))) (f y (toNumber (vy vec))) (f z (toNumber (vz vec)))
           (vw res))"

definition add :: "vector \<Rightarrow> vector \<Rightarrow> vector" where
  "add this vec = componentwise (\<lambda>a b. a + b) this vec"

definition sub :: "vector \<Rightarrow> vector \<Rightarrow> vector" where
  "sub this vec = componentwise (\<lambda>a b. a - b) this vec"

definition mult :: "vector \<Rightarrow> vector \<Rightarrow> vector" where
  "mult this v = componentwise (\<lambda>a b. a * b) this v"

fun scale :: "vector \<Rightarrow> number \<Rightarrow> vector" where
  "scale (Vector2 x y w) s =
     (let res = createVector (Vector2 x y w) in Vector2 (x * s) (y * s) (vw res))"
| "scale (Vector3 x y z w) s =
     (let res = createVector (Vector3 x y z w) in Vector3 (x * s) (y * s) (z * s) (vw res))"

text \<open>\<open>dot\<close>: \<open>sum = 0; for(let i of this.components) sum += this[i] * vec[i]\<close>.\<close>

fun dot :: "vector \<Rightarrow> vector \<Rightarrow> number" where
  "dot (Vector2 x y w) vec =
     Num 0 + x * toNumber (vx vec) + y * toNumber (vy vec)"
| "dot (Vector3 x y z w) vec =
     Num 0 + x * toNumber (vx vec) + y * toNumber (vy vec) + z * toNumber (vz vec)"

text \<open>The getter \<open>magnitude\<close> of each class.\<close>

fun magnitude :: "vector \<Rightarrow> number" where
  "magnitude (Vector2 x y w) = hypot2 x y"
| "magnitude (Vector3 x y z w) = hypot3 x y z"

text \<open>
  \<open>normalise\<close>: \<open>if(this.magnitude != 0) for(let i of this.components) this[i] /= this.magnitude\<close>.
  \<open>magnitude\<close> is a getter, so each pass of the loop computes it anew from the
  components as they are then; \<open>NaN != 0\<close> is true.
\<close>

fun normalise :: "vector \<Rightarrow> vector" where
  "normalise (Vector2 x y w) =
     (if magnitude (Vector2 x y w) \<noteq> Num 0 then
        let x1 = ndiv x (magnitude (Vector2 x y w));
            y1 = ndiv y (magnitude (Vector2 x1 y w))
        in Vector2 x1 y1 w
      else Vector2 x y w)"
| "normalise (Vector3 x y z w) =
     (if magnitude (Vector3 x y z w) \<noteq> Num 0 then
        let x1 = ndiv x (magnitude (Vector3 x y z w));
            y1 = ndiv y (magnitude (Vector3 x1 y z w));
            z1 = ndiv z (magnitude (Vector3 x1 y1 z w))
        in Vector3 x1 y1 z1 w
      else Vector3 x y z w)"

text \<open>The getter \<open>normal\<close> exists on \<open>Vector2\<close> only; on a \<open>Vector3\<close> the property is
  \<open>undefined\<close>.\<close>

fun normal :: "vector \<Rightarrow> vector option" where
  "normal (Vector2 x y w) =
     (let res = createVector (Vector2 x y w) in Some (Vector2 (- y) x (vw res)))"
| "normal (Vector3 x y z w) = None"

text \<open>
  \<open>cross\<close> is a method of \<open>Vector3\<close>; calling it on a \<open>Vector2\<close> is a \<open>TypeError\<close>
  (not a function). The second line is the source's:
  \<open>res.y = this.z * vec.x - this.z * vec.z\<close>.
\<close>

fun cross :: "vector \<Rightarrow> vector \<Rightarrow> error + vector" where
  "cross (Vector2 x y w) vec = Inl TypeError"
| "cross (Vector3 x y z w) vec =
     (let res = createVector (Vector3 x y z w)
      in Inr (Vector3 (y * toNumber (vz vec) - z * toNumber (vy vec))
                      (z * toNumber (vx vec) - z * toNumber (vz vec))
                      (x * toNumber (vy vec) - y * toNumber (vx vec))
                      (vw res)))"

text \<open>\<open>toArray\<close>: the components, then \<open>w\<close>.\<close>

fun toArray :: "vector \<Rightarrow> number list" where
  "toArray (Vector2 x y w) = [x, y, w]"
| "toArray (Vector3 x y z w) = [x, y, z, w]"

text \<open>The cross product as the specification words it, for comparison.\<close>

definition standard_cross :: "vector \<Rightarrow> vector \<Rightarrow> vector" where
  "standard_cross a b =
     Vector3 (toNumber (vy a) * toNumber (vz b) - toNumber (vz a) * toNumber (vy b))
             (toNumber (vz a) * toNumber (vx b) - toNumber (vx a) * toNumber (vz b))
             (toNumber (vx a) * toNumber (vy b) - toNumber (vy a) * toNumber (vx b))
             (Num 1)"


section \<open>Arrays\<close>

text \<open>\<open>xs[i]\<close> for a natural index: \<open>undefined\<close> outside the array.\<close>

definition index :: "'a list \<Rightarrow> nat \<Rightarrow> 'a option" where
  "index xs i = (if i < length xs then Some (xs ! i) else None)"

text \<open>\<open>xs[n]\<close> for a number \<open>n\<close>: only a non-negative integer below the length names an
  element.\<close>

fun index_number :: "'a list \<Rightarrow> number \<Rightarrow> 'a option" where
  "index_number xs NaN = None"
| "index_number xs (Num r) =
     (if 0 \<le> r \<and> r = of_int \<lfloor>r\<rfloor> then index xs (nat \<lfloor>r\<rfloor>) else None)"

text \<open>A loop \<open>for(let i = 0; i < bound; i++)\<close> whose bound is a quotient of lengths, not
  always an integer: it runs for \<open>i = 0, ..., \<lceil>bound\<rceil> - 1\<close>.\<close>

definition upto_bound :: "real \<Rightarrow> nat list" where
  "upto_bound bound = [0 ..< nat \<lceil>bound\<rceil>]"


section \<open>Matrices (matrices.js)\<close>

text \<open>
  A matrix is a \<open>Float32Array\<close>, here the list of its cells; the parameter \<open>n\<close> is the
  \<open>length\<close> of the family (\<open>Mat(3)\<close> or \<open>Mat(4)\<close>). Writing a cell outside a typed
  array does nothing, as \<open>list_update\<close>; reading one gives \<open>undefined\<close>. The rounding
  of each stored cell to single precision is idealised away.
\<close>

type_synonym matrix = "number list"

definition create :: "nat \<Rightarrow> number list \<Rightarrow> matrix" where
  "create n args = map (\<lambda>i. orElse (index args i) (Num 0)) [0 ..< n * n]"

definition diagonal :: "nat \<Rightarrow> number list \<Rightarrow> matrix" where
  "diagonal n arg =
     fold (\<lambda>i m. m[i * n + i := orElse (index arg i) (Num 0)]) [0 ..< n] (create n [])"

definition identity :: "nat \<Rightarrow> matrix" where
  "identity n = diagonal n [Num 1, Num 1, Num 1]"

definition multiplyMatrix :: "nat \<Rightarrow> matrix \<Rightarrow> matrix \<Rightarrow> error + matrix" where
  "multiplyMatrix n m1 m2 =
     (let column = real (length m1) / real n;
          row = real (length m2) / real n;
          size = column
      in if column \<noteq> row then Inl TypeError
         else Inr (fold (\<lambda>i. fold (\<lambda>j copy.
                      copy[i * n + j :=
                        fold (\<lambda>k sum. sum + toNumber (index m1 (i * n + k)) * toNumber (index m2 (k * n + j)))
                          (upto_bound size) (Num 0)])
                      (upto_bound size))
                   (upto_bound size) (create n [])))"

text \<open>\<open>vec.components.length\<close>.\<close>

fun components_length :: "vector \<Rightarrow> nat" where
  "components_length (Vector2 x y w) = 2"
| "components_length (Vector3 x y z w) = 3"

definition multiplyVector :: "nat \<Rightarrow> matrix \<Rightarrow> vector \<Rightarrow> error + vector" where
  "multiplyVector n m vec =
     (let column = real (length m) / real n;
          row = components_length vec + 1
      in if column \<noteq> real row then Inl TypeError
         else
           let v = toArray vec;
               res = map (\<lambda>i. fold (\<lambda>j sum. sum + toNumber (index m (i * n + j)) * toNumber (index v j))
                                  (upto_bound column) (Num 0))
                         [0 ..< row]
           in Inr (if row = 4 then new_Vector3 (index res 0) (index res 1) (index res 2) (index res 3)
                   else new_Vector2 (index res 0) (index res 1) (index res 2)))"

definition pitchRotation :: "number \<Rightarrow> matrix" where
  "pitchRotation a =
     (create 4 [])[0 := Num 1, 5 := ncos a, 6 := - nsin a, 9 := nsin a, 10 := ncos a, 15 := Num 1]"

definition rollRotation :: "number \<Rightarrow> matrix" where
  "rollRotation a =
     (create 4 [])[0 := ncos a, 1 := - nsin a, 4 := nsin a, 5 := ncos a, 10 := Num 1, 15 := Num 1]"


section \<open>Strings\<close>

text \<open>\<open>s.split(c)\<close> for a separator of one character, and \<open>s.startsWith(p)\<close>.\<close>

fun split :: "char \<Rightarrow> string \<Rightarrow> string list" where
  "split c [] = [[]]"
| "split c (x # xs) =
     (if x = c then [] # split c xs
      else case split c xs of
             w # ws \<Rightarrow> (x # w) # ws
           | [] \<Rightarrow> [[x]])"

definition startsWith :: "string \<Rightarrow> string \<Rightarrow> bool" where
  "startsWith s p = (take (length p) s = p)"

text \<open>
  \<open>parseFloat\<close>: leading white space is skipped, then the longest prefix that is a
  decimal literal (sign, digits, fraction, exponent) is read; with no digit the
  result is \<open>NaN\<close>. The literal \<open>Infinity\<close> has no value in this model of numbers and
  reads as \<open>NaN\<close>. An \<open>undefined\<close> argument is first converted to the string
  \<open>"undefined"\<close>.
\<close>

definition is_space :: "char \<Rightarrow> bool" where
  "is_space c = (c \<in> set [CHR '' '', CHR 0x09, CHR 0x0A, CHR 0x0B, CHR 0x0C, CHR 0x0D])"

definition is_digit :: "char \<Rightarrow> bool" where
  "is_digit c = (c \<in> set ''0123456789'')"

definition digits_value :: "string \<Rightarrow> nat" where
  "digits_value ds = foldl (\<lambda>acc c. 10 * acc + (of_char c - 48)) 0 ds"

definition read_sign :: "string \<Rightarrow> real \<times> string" where
  "read_sign s =
     (case s of
        c # r \<Rightarrow> if c = CHR ''-'' then (- 1, r) else if c = CHR ''+'' then (1, r) else (1, s)
      | [] \<Rightarrow> (1, s))"

definition read_exponent :: "string \<Rightarrow> real" where
  "read_exponent s =
     (case s of
        c # r \<Rightarrow>
          if c = CHR ''e'' \<or> c = CHR ''E'' then
            (let (sg, r1) = read_sign r; ds = takeWhile is_digit r1
             in if ds = [] then 1
                else if sg < 0 then 1 / 10 ^ digits_value ds else 10 ^ digits_value ds)
          else 1
      | [] \<Rightarrow> 1)"

definition parseFloat :: "string option \<Rightarrow> number" where
  "parseFloat v =
     (let s = (case v of None \<Rightarrow> ''undefined'' | Some t \<Rightarrow> t);
          (sg, u) = read_sign (dropWhile is_space s);
          ip = takeWhile is_digit u;
          u1 = dropWhile is_digit u;
          has_point = (case u1 of c # r \<Rightarrow> c = CHR ''.'' | [] \<Rightarrow> False);
          fp = (if has_point then takeWhile is_digit (tl u1) else []);
          u2 = (if has_point then dropWhile is_digit (tl u1) else u1)
      in if ip = [] \<and> fp = [] then NaN
         else Num (sg * (real (digits_value ip) + real (digits_value fp) / 10 ^ length fp)
                   * read_exponent u2))"


section \<open>Triangles (geometry.js)\<close>

record color =
  col_h :: "number option"
  col_s :: "number option"
  col_l :: "number option"
  col_a :: "number option"

text \<open>The fields \<open>h\<close>, \<open>s\<close>, \<open>l\<close>, \<open>a\<close> of a colour object; \<open>{}\<close> has none of them.\<close>

definition empty_color :: color where
  "empty_color = \<lparr>col_h = None, col_s = None, col_l = None, col_a = None\<rparr>"

record triangle =
  t_vertices :: "vector list"
  t_color :: color

text \<open>
  An element of a vertex list given to \<open>Triangle\<close> is an array of numbers or a
  vector; \<open>None\<close> is \<open>undefined\<close>, on which \<open>p[0]\<close> is a \<open>TypeError\<close>. Only a
  \<open>Vector3\<close> is kept as it is; anything else is read by index.
\<close>

datatype point = PArray "number list" | PVector vector

fun triangle_vertex :: "point option \<Rightarrow> error + vector" where
  "triangle_vertex None = Inl TypeError"
| "triangle_vertex (Some (PVector (Vector3 x y z w))) = Inr (Vector3 x y z w)"
| "triangle_vertex (Some (PVector (Vector2 x y w))) = Inr (new_Vector3 None None None None)"
| "triangle_vertex (Some (PArray p)) =
     Inr (new_Vector3 (index p 0) (index p 1) (index p 2) None)"

text \<open>\<open>xs.forEach\<close> or \<open>xs.map\<close> with a body that may throw: the first exception ends it.\<close>

fun mapE :: "('a \<Rightarrow> error + 'b) \<Rightarrow> 'a list \<Rightarrow> error + 'b list" where
  "mapE f [] = Inr []"
| "mapE f (x # xs) =
     (case f x of
        Inl e \<Rightarrow> Inl e
      | Inr y \<Rightarrow> (case mapE f xs of Inl e \<Rightarrow> Inl e | Inr ys \<Rightarrow> Inr (y # ys)))"

definition new_Triangle :: "point option list \<Rightarrow> color \<Rightarrow> error + triangle" where
  "new_Triangle vertices color =
     (case mapE triangle_vertex vertices of
        Inl e \<Rightarrow> Inl e
      | Inr vs \<Rightarrow> Inr \<lparr>t_vertices = vs, t_color = color\<rparr>)"


section \<open>Meshes (mesh.js)\<close>

definition parse_key :: "string list \<Rightarrow> string \<Rightarrow> number list list" where
  "parse_key spliitedData i =
     map (\<lambda>item. let value = split CHR '' '' item
                 in map parseFloat [index value 1, index value 2, index value 3])
         (filter (\<lambda>item. startsWith item i) spliitedData)"

definition PARSE_MESH_DATA :: "string \<Rightarrow> string list \<Rightarrow> (string \<rightharpoonup> number list list)" where
  "PARSE_MESH_DATA data extracts =
     (let spliitedData = split (CHR 0x0A) data
      in (\<lambda>i. if i \<in> set extracts then Some (parse_key spliitedData i) else None))"

text \<open>The fields of a \<open>Mesh\<close>; its \<open>scale\<close> is \<open>mesh_scale\<close> here (\<open>scale\<close> is the vectors').\<close>

record mesh =
  vertices :: "point list"
  faces :: "number list list"
  faceColor :: "number list list"
  triangles :: "triangle list"
  mesh_scale :: vector
  position :: vector
  rotation :: vector
  showVertex :: bool
  showWireFrame :: bool
  fillShader :: bool
  wireFrameColor :: "string option"

text \<open>A method that changes its object and may throw: \<open>Inl (e, x)\<close> is the exception
  \<open>e\<close>, thrown with the object left as \<open>x\<close>.\<close>

type_synonym 'a outcome = "(error \<times> 'a) + 'a"

text \<open>\<open>this.triangles[i] = triangle\<close>; the loop reaches \<open>i\<close> only after \<open>i - 1\<close>, so \<open>i\<close> is
  never beyond the end of the array.\<close>

definition store :: "'a list \<Rightarrow> nat \<Rightarrow> 'a \<Rightarrow> 'a list" where
  "store xs i x = (if i < length xs then xs[i := x] else xs @ [x])"

text \<open>The body of the \<open>forEach\<close> of \<open>updateGeometry\<close>, for the face \<open>face\<close> of index \<open>i\<close>.\<close>

definition face_triangle :: "mesh \<Rightarrow> number list \<Rightarrow> nat \<Rightarrow> error + triangle" where
  "face_triangle this face i =
     (let v = vertices this;
          c = index (faceColor this) i
      in case new_Triangle
                [index_number v (toNumber (index face 0) - Num 1),
                 index_number v (toNumber (index face 1) - Num 1),
                 index_number v (toNumber (index face 2) - Num 1)] empty_color of
           Inl e \<Rightarrow> Inl e
         | Inr triangle \<Rightarrow>
             (case c of
                None \<Rightarrow> Inl TypeError
              | Some c \<Rightarrow>
                  Inr (triangle\<lparr>t_color :=
                         \<lparr>col_h = index c 0, col_s = index c 1, col_l = index c 2,
                          col_a = Some (orElse (index c 3) (Num 1))\<rparr>\<rparr>)))"

fun updateGeometry_loop :: "mesh \<Rightarrow> number list list \<Rightarrow> nat \<Rightarrow> mesh outcome" where
  "updateGeometry_loop this [] i = Inr this"
| "updateGeometry_loop this (face # rest) i =
     (case face_triangle this face i of
        Inl e \<Rightarrow> Inl (e, this)
      | Inr triangle \<Rightarrow>
          updateGeometry_loop (this\<lparr>triangles := store (triangles this) i triangle\<rparr>) rest (Suc i))"

definition updateGeometry :: "mesh \<Rightarrow> mesh outcome" where
  "updateGeometry this = updateGeometry_loop this (faces this) 0"

text \<open>The constructor; an exception of \<open>updateGeometry\<close> leaves no mesh.\<close>

definition new_Mesh :: "string \<Rightarrow> error + mesh" where
  "new_Mesh data =
     (let d = PARSE_MESH_DATA data [''v'', ''f'', ''c''];
          this = \<lparr>vertices = map PArray (case d ''v'' of Some xs \<Rightarrow> xs | None \<Rightarrow> []),
                  faces = (case d ''f'' of Some xs \<Rightarrow> xs | None \<Rightarrow> []),
                  faceColor = (case d ''c'' of Some xs \<Rightarrow> xs | None \<Rightarrow> []),
                  triangles = [],
                  mesh_scale = new_Vector3 (Some (Num 1)) (Some (Num 1)) (Some (Num 1)) None,
                  position = new_Vector3 None None None None,
                  rotation = new_Vector3 None None None None,
                  showVertex = False,
                  showWireFrame = True,
                  fillShader = True,
                  wireFrameColor = None\<rparr>
      in case updateGeometry this of
           Inl (e, _) \<Rightarrow> Inl e
         | Inr this' \<Rightarrow> Inr this')"


section \<open>Scenes (scene.js)\<close>

text \<open>The paint record that \<open>process\<close> pushes on \<open>scene.toRaster\<close>.\<close>

record raster =
  r_vertices :: "vector list"
  zAverage :: number
  alpha :: number
  r_color :: color
  r_showVertex :: bool
  r_showWireFrame :: bool
  r_fillShader :: bool
  r_wireFrameColor :: "string option"

text \<open>
  The drawing surface is the list of the calls made on the 2D context, in order. A
  style is the colour object itself, the template string
  \<open>hsla(h, s%, l%, a)\<close> of a colour, or a string of the caller.
\<close>

datatype style = ColorObject color | Hsla color | Css string

datatype canvas_op =
    Save | Restore | BeginPath | ClosePath | Fill | Stroke
  | FillStyle style | StrokeStyle style
  | Arc number number number number number
  | MoveTo number number | LineTo number number
  | FillRect number number number number | ClearRect number number number number

record scene =
  width :: number
  height :: number
  clearColor :: "string option"
  ctx :: "canvas_op list"
  projectionMatrix :: matrix
  objects :: "mesh list"
  toRaster :: "raster list"
  camera_position :: vector
  camera_rotation :: vector

definition updateProjectionMatrix ::
  "scene \<Rightarrow> number \<Rightarrow> number \<Rightarrow> number \<Rightarrow> number \<Rightarrow> number \<Rightarrow> number \<Rightarrow> scene" where
  "updateProjectionMatrix this left right bottom top' near far =
     this\<lparr>projectionMatrix :=
       (projectionMatrix this)
         [0 := ndiv (Num 2) (right - left),
          3 := ndiv (- (right + left)) (right - left),
          5 := ndiv (Num 2) (top' - bottom),
          7 := ndiv (- (top' + bottom)) (top' - bottom),
          10 := ndiv (Num (- 2)) (far - near),
          11 := ndiv (- (far + near)) (far - near),
          15 := Num 1]\<rparr>"

text \<open>The constructor. A new canvas element is 300 by 150; \<open>w\<close> and \<open>h\<close> go to its style
  and to the projection only.\<close>

definition new_Scene :: "number \<Rightarrow> number \<Rightarrow> scene" where
  "new_Scene w h =
     updateProjectionMatrix
       \<lparr>width = Num 300, height = Num 150, clearColor = None, ctx = [],
        projectionMatrix = create 4 [], objects = [], toRaster = [],
        camera_position = new_Vector3 None None None None,
        camera_rotation = new_Vector3 None None None None\<rparr>
       (Num 0) w h (Num 0) (Num (1 / 10)) (Num 100)"

text \<open>\<open>Scene.add\<close>, named \<open>add_object\<close> here (\<open>add\<close> is the vectors'), and the values it
  may be given; only a \<open>Mesh\<close> passes \<open>instanceof Mesh\<close>.\<close>

datatype jsvalue =
    JMesh mesh | JVector vector | JTriangle triangle | JNumber number | JString string
  | JBoolean bool | JArray "jsvalue list" | JNull | JUndefined

fun add_object :: "scene \<Rightarrow> jsvalue \<Rightarrow> scene outcome" where
  "add_object this (JMesh obj) = Inr (this\<lparr>objects := objects this @ [obj]\<rparr>)"
| "add_object this obj = Inl (TypeError, this)"


subsection \<open>Mesh.process\<close>

definition transform_vertex :: "matrix \<Rightarrow> mesh \<Rightarrow> vector \<Rightarrow> error + vector" where
  "transform_vertex mRotate this vertex =
     multiplyVector 4 mRotate (add (mult vertex (mesh_scale this)) (position this))"

text \<open>\<open>line2.cross(line3)\<close>, normalised. With fewer than three vertices
  \<open>transformed[1]\<close> or \<open>transformed[2]\<close> is \<open>undefined\<close> and \<open>.sub\<close> on it is a
  \<open>TypeError\<close>.\<close>

fun face_normal :: "vector list \<Rightarrow> error + vector" where
  "face_normal (line1 # t1 # t2 # rest) =
     (let line2 = sub t1 line1; line3 = sub t2 line1
      in case cross line2 line3 of
           Inl e \<Rightarrow> Inl e
         | Inr c \<Rightarrow> Inr (normalise c))"
| "face_normal _ = Inl TypeError"

text \<open>\<open>projected[i].x += 1\<close>, \<open>.y += 1\<close>, \<open>.x *= scene.width * 0.5\<close>,
  \<open>.y *= scene.height * 0.5\<close>.\<close>

fun to_view :: "scene \<Rightarrow> vector \<Rightarrow> vector" where
  "to_view scene (Vector2 x y w) =
     Vector2 ((x + Num 1) * (width scene * Num (1 / 2))) ((y + Num 1) * (height scene * Num (1 / 2))) w"
| "to_view scene (Vector3 x y z w) =
     Vector3 ((x + Num 1) * (width scene * Num (1 / 2))) ((y + Num 1) * (height scene * Num (1 / 2))) z w"

definition project :: "scene \<Rightarrow> vector \<Rightarrow> error + vector" where
  "project scene tri =
     (case multiplyVector 4 (projectionMatrix scene) tri of
        Inl e \<Rightarrow> Inl e
      | Inr p \<Rightarrow> Inr (to_view scene p))"

text \<open>The body of \<open>if(cross.z < 0)\<close>: the record pushed for a triangle that is kept.\<close>

fun paint_record :: "mesh \<Rightarrow> scene \<Rightarrow> triangle \<Rightarrow> vector list \<Rightarrow> error + raster" where
  "paint_record this scene tri (t0 # t1 # t2 # rest) =
     (let transformed = t0 # t1 # t2 # rest;
          zAvg = ndiv (toNumber (vz t0) + toNumber (vz t1) + toNumber (vz t2)) (Num 3)
      in case mapE (project scene) transformed of
           Inl e \<Rightarrow> Inl e
         | Inr projected \<Rightarrow>
             Inr \<lparr>r_vertices = projected, zAverage = zAvg, alpha = Num 1,
                  r_color = t_color tri, r_showVertex = showVertex this,
                  r_showWireFrame = showWireFrame this, r_fillShader = fillShader this,
                  r_wireFrameColor = wireFrameColor this\<rparr>)"
| "paint_record this scene tri _ = Inl TypeError"

text \<open>The body of \<open>this.triangles.forEach\<close>: \<open>None\<close> when the triangle is culled.\<close>

definition process_triangle :: "matrix \<Rightarrow> mesh \<Rightarrow> scene \<Rightarrow> triangle \<Rightarrow> error + raster option" where
  "process_triangle mRotate this scene tri =
     (case mapE (transform_vertex mRotate this) (t_vertices tri) of
        Inl e \<Rightarrow> Inl e
      | Inr transformed \<Rightarrow>
          (case face_normal transformed of
             Inl e \<Rightarrow> Inl e
           | Inr c \<Rightarrow>
               if nless (toNumber (vz c)) (Num 0) then
                 (case paint_record this scene tri transformed of
                    Inl e \<Rightarrow> Inl e
                  | Inr r \<Rightarrow> Inr (Some r))
               else Inr None))"

fun process_loop :: "matrix \<Rightarrow> mesh \<Rightarrow> scene \<Rightarrow> triangle list \<Rightarrow> scene outcome" where
  "process_loop mRotate this scene [] = Inr scene"
| "process_loop mRotate this scene (tri # tris) =
     (case process_triangle mRotate this scene tri of
        Inl e \<Rightarrow> Inl (e, scene)
      | Inr None \<Rightarrow> process_loop mRotate this scene tris
      | Inr (Some r) \<Rightarrow>
          process_loop mRotate this (scene\<lparr>toRaster := toRaster scene @ [r]\<rparr>) tris)"

definition rotation_matrix :: "mesh \<Rightarrow> scene \<Rightarrow> error + matrix" where
  "rotation_matrix this scene =
     (let mRotateX = pitchRotation (toNumber (vx (rotation this)) + toNumber (vx (camera_rotation scene)));
          mRotateZ = rollRotation (toNumber (vz (rotation this)) + toNumber (vz (camera_rotation scene)))
      in multiplyMatrix 4 mRotateX mRotateZ)"

text \<open>
  \<open>process\<close>. The method \<open>update\<close>, when one is attached to the mesh, is the
  argument \<open>update\<close>; it may change the mesh.
\<close>

definition process :: "(mesh \<Rightarrow> mesh) option \<Rightarrow> mesh \<Rightarrow> scene \<Rightarrow> (mesh \<times> scene) outcome" where
  "process update this0 scene =
     (let this = (case update of Some f \<Rightarrow> f this0 | None \<Rightarrow> this0)
      in case rotation_matrix this scene of
           Inl e \<Rightarrow> Inl (e, (this, scene))
         | Inr mRotate \<Rightarrow>
             (case process_loop mRotate this scene (triangles this) of
                Inl (e, scene') \<Rightarrow> Inl (e, (this, scene'))
              | Inr scene' \<Rightarrow> Inr (this, scene')))"


subsection \<open>Scene.render\<close>

text \<open>\<open>this.objects.forEach(obj => { obj.process(this) })\<close>; \<open>updates i\<close> is the \<open>update\<close>
  method of the object of index \<open>i\<close>, \<open>processed\<close> the objects already processed.\<close>

fun process_objects ::
  "(nat \<Rightarrow> (mesh \<Rightarrow> mesh) option) \<Rightarrow> mesh list \<Rightarrow> mesh list \<Rightarrow> scene \<Rightarrow> scene outcome" where
  "process_objects updates processed [] scene = Inr (scene\<lparr>objects := processed\<rparr>)"
| "process_objects updates processed (obj # rest) scene =
     (case process (updates (length processed)) obj scene of
        Inl (e, (obj', scene')) \<Rightarrow> Inl (e, scene'\<lparr>objects := processed @ obj' # rest\<rparr>)
      | Inr (obj', scene') \<Rightarrow> process_objects updates (processed @ [obj']) rest scene')"

text \<open>The comparison function given to \<open>sort\<close>, \<open>(a, b) => a.zAverage < b.zAverage\<close>;
  \<open>sort\<close> converts its boolean to a number.\<close>

definition compare_zAverage :: "raster \<Rightarrow> raster \<Rightarrow> int" where
  "compare_zAverage a b = of_bool (nless (zAverage a) (zAverage b))"

text \<open>The calls on the context that paint one record.\<close>

definition hsla :: "color \<Rightarrow> style" where
  "hsla c = Hsla c"

definition paint_vertices :: "raster \<Rightarrow> canvas_op list" where
  "paint_vertices tri =
     (if r_showVertex tri then
        [Save] @
        concat (map (\<lambda>vertex.
           [FillStyle (ColorObject (r_color tri)), BeginPath,
            Arc (toNumber (vx vertex)) (toNumber (vy vertex)) (Num 2) (Num 0) (Num (2 * pi)),
            ClosePath, Fill]) (r_vertices tri)) @
        [Restore]
      else [])"

text \<open>The second block: the calls made, and the \<open>TypeError\<close> of \<open>v[i].x\<close> when the
  record has fewer than three vertices, thrown after the calls made so far.\<close>

definition paint_polygon :: "raster \<Rightarrow> canvas_op list \<times> error option" where
  "paint_polygon tri =
     (if r_showWireFrame tri \<or> r_fillShader tri then
        (let v = r_vertices tri;
             c = r_color tri;
             styles =
               [StrokeStyle (case r_wireFrameColor tri of
                               None \<Rightarrow> hsla c
                             | Some col \<Rightarrow> if col = [] then hsla c else Css col),
                FillStyle (hsla c),
                BeginPath]
         in case v of
              v0 # v1 # v2 # rest \<Rightarrow>
                (styles @
                 [MoveTo (toNumber (vx v0)) (toNumber (vy v0)),
                  LineTo (toNumber (vx v1)) (toNumber (vy v1)),
                  LineTo (toNumber (vx v2)) (toNumber (vy v2)),
                  ClosePath] @
                 (if r_fillShader tri then [Fill] else []) @
                 [Stroke], None)
            | [v0, v1] \<Rightarrow>
                (styles @
                 [MoveTo (toNumber (vx v0)) (toNumber (vy v0)),
                  LineTo (toNumber (vx v1)) (toNumber (vy v1))], Some TypeError)
            | [v0] \<Rightarrow> (styles @ [MoveTo (toNumber (vx v0)) (toNumber (vy v0))], Some TypeError)
            | [] \<Rightarrow> (styles, Some TypeError))
      else ([], None))"

fun paint_loop :: "scene \<Rightarrow> raster list \<Rightarrow> scene outcome" where
  "paint_loop scene [] = Inr scene"
| "paint_loop scene (tri # rest) =
     (let (ops, thrown) = paint_polygon tri;
          scene1 = scene\<lparr>ctx := ctx scene @ paint_vertices tri @ ops\<rparr>
      in case thrown of
           Some e \<Rightarrow> Inl (e, scene1)
         | None \<Rightarrow> paint_loop scene1 rest)"

text \<open>
  \<open>render\<close>, in two steps. \<open>render_list\<close> is the scene when the painting loop starts:
  \<open>toRaster\<close> emptied, filled by the objects, sorted. \<open>Array.prototype.sort\<close> belongs
  to the engine and is the parameter \<open>engine_sort\<close>.
\<close>

type_synonym 'a sorter = "('a \<Rightarrow> 'a \<Rightarrow> int) \<Rightarrow> 'a list \<Rightarrow> 'a list"

definition render_list ::
  "raster sorter \<Rightarrow> (nat \<Rightarrow> (mesh \<Rightarrow> mesh) option) \<Rightarrow> scene \<Rightarrow> scene outcome" where
  "render_list engine_sort updates this =
     (case process_objects updates [] (objects this) (this\<lparr>toRaster := []\<rparr>) of
        Inl (e, scene) \<Rightarrow> Inl (e, scene)
      | Inr scene \<Rightarrow> Inr (scene\<lparr>toRaster := engine_sort compare_zAverage (toRaster scene)\<rparr>))"

definition render ::
  "raster sorter \<Rightarrow> (nat \<Rightarrow> (mesh \<Rightarrow> mesh) option) \<Rightarrow> scene \<Rightarrow> scene outcome" where
  "render engine_sort updates this =
     (case render_list engine_sort updates this of
        Inl (e, scene) \<Rightarrow> Inl (e, scene)
      | Inr scene \<Rightarrow>
          (case paint_loop scene (toRaster scene) of
             Inl (e, scene') \<Rightarrow> Inl (e, scene')
           | Inr scene' \<Rightarrow> Inr (scene'\<lparr>toRaster := []\<rparr>)))"


subsection \<open>The engine's sort\<close>

text \<open>
  \<open>Array.prototype.sort\<close> as V8 runs it (TimSort, \<open>third_party/v8/builtins/array-sort.tq\<close>)
  on an array of fewer than 64 defined elements: \<open>CountAndMakeRun\<close> finds the run
  that starts the array, reversing it when it descends strictly, and
  \<open>BinaryInsertionSort\<close> inserts the elements after it one by one. The comparison
  function is called as \<open>cmp x y\<close> and only the sign of its result is used.
\<close>

fun run_extension :: "('a \<Rightarrow> 'a \<Rightarrow> int) \<Rightarrow> bool \<Rightarrow> 'a \<Rightarrow> 'a list \<Rightarrow> nat" where
  "run_extension cmp isDescending previousElement [] = 0"
| "run_extension cmp isDescending previousElement (currentElement # rest) =
     (let order = cmp currentElement previousElement
      in if (if isDescending then order \<ge> 0 else order < 0) then 0
         else Suc (run_extension cmp isDescending currentElement rest))"

fun CountAndMakeRun :: "('a \<Rightarrow> 'a \<Rightarrow> int) \<Rightarrow> 'a list \<Rightarrow> 'a list \<times> nat" where
  "CountAndMakeRun cmp (elementHigh # elementLow # rest) =
     (let workArray = elementHigh # elementLow # rest;
          order = cmp elementLow elementHigh;
          isDescending = (order < 0);
          runLength = 2 + run_extension cmp isDescending elementLow rest
      in if isDescending then (rev (take runLength workArray) @ drop runLength workArray, runLength)
         else (workArray, runLength))"
| "CountAndMakeRun cmp workArray = (workArray, 1)"

function binary_search :: "('a \<Rightarrow> 'a \<Rightarrow> int) \<Rightarrow> 'a \<Rightarrow> 'a list \<Rightarrow> nat \<Rightarrow> nat \<Rightarrow> nat" where
  "binary_search cmp pivot workArray left right =
     (if left < right then
        let mid = left + (right - left) div 2;
            order = cmp pivot (workArray ! mid)
        in if order < 0 then binary_search cmp pivot workArray left mid
           else binary_search cmp pivot workArray (mid + 1) right
      else left)"
  by pat_completeness auto
termination
  by (relation "measure (\<lambda>(cmp, pivot, workArray, left, right). right - left)") auto

text \<open>One pass of \<open>BinaryInsertionSort\<close>: the element at \<open>start\<close> moves to \<open>left\<close>, those
  between shift right by one. \<open>start\<close> is below the length, and \<open>mid\<close> below \<open>start\<close>.\<close>

definition insert_pivot :: "('a \<Rightarrow> 'a \<Rightarrow> int) \<Rightarrow> nat \<Rightarrow> 'a list \<Rightarrow> 'a list" where
  "insert_pivot cmp start workArray =
     (let pivot = workArray ! start;
          left = binary_search cmp pivot workArray 0 start
      in take left workArray @ [pivot] @ take (start - left) (drop left workArray)
         @ drop (Suc start) workArray)"

definition v8_sort :: "('a \<Rightarrow> 'a \<Rightarrow> int) \<Rightarrow> 'a list \<Rightarrow> 'a list" where
  "v8_sort cmp xs =
     (if length xs < 2 then xs
      else let (workArray, currentRunLength) = CountAndMakeRun cmp xs
           in fold (insert_pivot cmp) [currentRunLength ..< length xs] workArray)"


section \<open>The specification's wording, for comparison\<close>

text \<open>\<open>normalise\<close> as the specification words it: every component is divided by the
  magnitude the vector had on entry, and a vector of magnitude 0 is left as it is.\<close>

fun standard_normalise :: "vector \<Rightarrow> vector" where
  "standard_normalise (Vector2 x y w) =
     (let m = magnitude (Vector2 x y w)
      in if m \<noteq> Num 0 then Vector2 (ndiv x m) (ndiv y m) w else Vector2 x y w)"
| "standard_normalise (Vector3 x y z w) =
     (let m = magnitude (Vector3 x y z w)
      in if m \<noteq> Num 0 then Vector3 (ndiv x m) (ndiv y m) (ndiv z m) w else Vector3 x y z w)"

text \<open>The face normal of the specification, \<open>normalise(cross(v1 - v0, v2 - v0))\<close>, and
  its test on the transformed vertices of a triangle.\<close>

definition spec_normal :: "vector \<Rightarrow> vector \<Rightarrow> vector \<Rightarrow> vector" where
  "spec_normal v0 v1 v2 = standard_normalise (standard_cross (sub v1 v0) (sub v2 v0))"

definition faces_camera :: "matrix \<Rightarrow> mesh \<Rightarrow> triangle \<Rightarrow> bool" where
  "faces_camera mRotate this tri =
     (case mapE (transform_vertex mRotate this) (t_vertices tri) of
        Inr (v0 # v1 # v2 # rest) \<Rightarrow> nless (toNumber (vz (spec_normal v0 v1 v2))) (Num 0)
      | _ \<Rightarrow> False)"


section \<open>Inputs of the examples\<close>

text \<open>The mesh source of the specification's round-trip property.\<close>

definition minimal_source :: string where
  "minimal_source =
     ''v 0 0 0'' @ [CHR 0x0A] @ ''v 1 0 0'' @ [CHR 0x0A] @ ''v 0 1 0'' @ [CHR 0x0A] @
     ''f 1 2 3'' @ [CHR 0x0A] @ ''c 120 50 50''"

text \<open>The same three vertices with two faces, the second one wound the other way, and
  the triangle of that second face.\<close>

definition two_faces_source :: string where
  "two_faces_source =
     ''v 0 0 0'' @ [CHR 0x0A] @ ''v 1 0 0'' @ [CHR 0x0A] @ ''v 0 1 0'' @ [CHR 0x0A] @
     ''f 1 2 3'' @ [CHR 0x0A] @ ''f 3 2 1'' @ [CHR 0x0A] @
     ''c 120 50 50'' @ [CHR 0x0A] @ ''c 240 50 50''"

definition second_face_triangle :: triangle where
  "second_face_triangle =
     \<lparr>t_vertices = [Vector3 (Num 0) (Num 1) (Num 0) (Num 1),
                     Vector3 (Num 1) (Num 0) (Num 0) (Num 1),
                     Vector3 (Num 0) (Num 0) (Num 0) (Num 1)],
      t_color = \<lparr>col_h = Some (Num 240), col_s = Some (Num 50), col_l = Some (Num 50),
                 col_a = Some (Num 1)\<rparr>\<rparr>"


definition two_faces_mesh :: mesh where
  "two_faces_mesh =
     \<lparr>vertices = [PArray [Num 0, Num 0, Num 0], PArray [Num 1, Num 0, Num 0],
                  PArray [Num 0, Num 1, Num 0]],
      faces = [[Num 1, Num 2, Num 3], [Num 3, Num 2, Num 1]],
      faceColor = [[Num 120, Num 50, Num 50], [Num 240, Num 50, Num 50]],
      triangles =
        [\<lparr>t_vertices = [Vector3 (Num 0) (Num 0) (Num 0) (Num 1),
                        Vector3 (Num 1) (Num 0) (Num 0) (Num 1),
                        Vector3 (Num 0) (Num 1) (Num 0) (Num 1)],
          t_color = \<lparr>col_h = Some (Num 120), col_s = Some (Num 50), col_l = Some (Num 50),
                     col_a = Some (Num 1)\<rparr>\<rparr>,
         second_face_triangle],
      mesh_scale = Vector3 (Num 1) (Num 1) (Num 1) (Num 1),
      position = Vector3 (Num 0) (Num 0) (Num 0) (Num 1),
      rotation = Vector3 (Num 0) (Num 0) (Num 0) (Num 1),
      showVertex = False, showWireFrame = True, fillShader = True, wireFrameColor = None\<rparr>"

text \<open>The paint record of its second face in a new scene of 300 by 150, where the
  rotation is by the angle 0.\<close>

definition second_face_record :: raster where
  "second_face_record =
     \<lparr>r_vertices = [Vector3 (Num 0) (Num 149) (Num (- (1001 / 999))) (Num 1),
                     Vector3 (Num 1) (Num 150) (Num (- (1001 / 999))) (Num 1),
                     Vector3 (Num 0) (Num 150) (Num (- (1001 / 999))) (Num 1)],
      zAverage = Num 0, alpha = Num 1,
      r_color = \<lparr>col_h = Some (Num 240), col_s = Some (Num 50), col_l = Some (Num 50),
                 col_a = Some (Num 1)\<rparr>,
      r_showVertex = False, r_showWireFrame = True, r_fillShader = True,
      r_wireFrameColor = None\<rparr>"

text \<open>A mesh whose second triangle has two vertices only, as a caller who writes
  \<open>triangles\<close> can make it: processing that triangle throws.\<close>

definition broken_mesh :: mesh where
  "broken_mesh = two_faces_mesh\<lparr>triangles :=
      [second_face_triangle,
       \<lparr>t_vertices = [Vector3 (Num 0) (Num 0) (Num 0) (Num 1), Vector3 (Num 1) (Num 0) (Num 0) (Num 1)],
        t_color = empty_color\<rparr>]\<rparr>"

definition no_rotation :: matrix where
  "no_rotation = map Num [1, 0, 0, 0,  0, 1, 0, 0,  0, 0, 1, 0,  0, 0, 0, 1]"

text \<open>Three triangles that face the camera, at the depths 5, 1 and 3 and with the
  hues 0, 120 and 240; the mesh they parse to, and a scene that holds it.\<close>

definition depth_source :: string where
  "depth_source =
     ''v 0 0 5'' @ [CHR 0x0A] @ ''v 0 1 5'' @ [CHR 0x0A] @ ''v 1 0 5'' @ [CHR 0x0A] @
     ''v 0 0 1'' @ [CHR 0x0A] @ ''v 0 1 1'' @ [CHR 0x0A] @ ''v 1 0 1'' @ [CHR 0x0A] @
     ''v 0 0 3'' @ [CHR 0x0A] @ ''v 0 1 3'' @ [CHR 0x0A] @ ''v 1 0 3'' @ [CHR 0x0A] @
     ''f 1 2 3'' @ [CHR 0x0A] @ ''f 4 5 6'' @ [CHR 0x0A] @ ''f 7 8 9'' @ [CHR 0x0A] @
     ''c 0 50 50'' @ [CHR 0x0A] @ ''c 120 50 50'' @ [CHR 0x0A] @ ''c 240 50 50''"

definition depth_mesh :: mesh where
  "depth_mesh =
     \<lparr>vertices =
        [PArray [Num 0, Num 0, Num 5], PArray [Num 0, Num 1, Num 5], PArray [Num 1, Num 0, Num 5],
         PArray [Num 0, Num 0, Num 1], PArray [Num 0, Num 1, Num 1], PArray [Num 1, Num 0, Num 1],
         PArray [Num 0, Num 0, Num 3], PArray [Num 0, Num 1, Num 3], PArray [Num 1, Num 0, Num 3]],
      faces = [[Num 1, Num 2, Num 3], [Num 4, Num 5, Num 6], [Num 7, Num 8, Num 9]],
      faceColor = [[Num 0, Num 50, Num 50], [Num 120, Num 50, Num 50], [Num 240, Num 50, Num 50]],
      triangles =
        [\<lparr>t_vertices = [Vector3 (Num 0) (Num 0) (Num 5) (Num 1),
                        Vector3 (Num 0) (Num 1) (Num 5) (Num 1),
                        Vector3 (Num 1) (Num 0) (Num 5) (Num 1)],
          t_color = \<lparr>col_h = Some (Num 0), col_s = Some (Num 50), col_l = Some (Num 50),
                     col_a = Some (Num 1)\<rparr>\<rparr>,
         \<lparr>t_vertices = [Vector3 (Num 0) (Num 0) (Num 1) (Num 1),
                        Vector3 (Num 0) (Num 1) (Num 1) (Num 1),
                        Vector3 (Num 1) (Num 0) (Num 1) (Num 1)],
          t_color = \<lparr>col_h = Some (Num 120), col_s = Some (Num 50), col_l = Some (Num 50),
                     col_a = Some (Num 1)\<rparr>\<rparr>,
         \<lparr>t_vertices = [Vector3 (Num 0) (Num 0) (Num 3) (Num 1),
                        Vector3 (Num 0) (Num 1) (Num 3) (Num 1),
                        Vector3 (Num 1) (Num 0) (Num 3) (Num 1)],
          t_color = \<lparr>col_h = Some (Num 240), col_s = Some (Num 50), col_l = Some (Num 50),
                     col_a = Some (Num 1)\<rparr>\<rparr>],
      mesh_scale = Vector3 (Num 1) (Num 1) (Num 1) (Num 1),
      position = Vector3 (Num 0) (Num 0) (Num 0) (Num 1),
      rotation = Vector3 (Num 0) (Num 0) (Num 0) (Num 1),
      showVertex = False, showWireFrame = True, fillShader = True, wireFrameColor = None\<rparr>"

definition depth_scene :: scene where
  "depth_scene = (new_Scene (Num 300) (Num 150))\<lparr>objects := [depth_mesh]\<rparr>"

text \<open>The hues of the fill styles set on a context, in the order of the calls.\<close>

definition painted_hues :: "canvas_op list \<Rightarrow> number option list" where
  "painted_hues ops =
     concat (map (\<lambda>op. case op of FillStyle (Hsla c) \<Rightarrow> [col_h c] | _ \<Rightarrow> []) ops)"


section \<open>Properties of the vectors\<close>

lemma createVector_w: "vw (createVector v) = Num 1"
  by (cases v) (simp_all add: new_Vector2_def new_Vector3_def)

lemma plus_not_NaN [simp]: "(p + q \<noteq> NaN) = (p \<noteq> NaN \<and> q \<noteq> NaN)" for p q :: number
  by (cases p; cases q) simp_all

lemma minus_not_NaN [simp]: "(p - q \<noteq> NaN) = (p \<noteq> NaN \<and> q \<noteq> NaN)" for p q :: number
  by (cases p; cases q) simp_all

lemma times_not_NaN [simp]: "(p * q \<noteq> NaN) = (p \<noteq> NaN \<and> q \<noteq> NaN)" for p q :: number
  by (cases p; cases q) simp_all

lemma nless_not_NaN: "nless p q \<Longrightarrow> p \<noteq> NaN \<and> q \<noteq> NaN"
  by (cases p; cases q) simp_all

lemma ndiv_zero_not_negative [simp]: "\<not> nless (ndiv (Num 0) q) (Num 0)"
  by (cases q) simp_all

text \<open>
  C1. \<open>cross\<close> is not the standard cross product: its second component is
  \<open>a.z * b.x - a.z * b.z\<close>. For \<open>a = (0, 0, 1)\<close> and \<open>b = (0, 1, 1)\<close> it returns
  \<open>(-1, -1, 0)\<close>, the standard product is \<open>(-1, 0, 0)\<close>, and the result is not
  orthogonal to \<open>b\<close>: their dot product is \<open>-1\<close>.
\<close>

theorem cross_not_standard:
  "cross (Vector3 (Num 0) (Num 0) (Num 1) (Num 1)) (Vector3 (Num 0) (Num 1) (Num 1) (Num 1))
     = Inr (Vector3 (Num (- 1)) (Num (- 1)) (Num 0) (Num 1))
   \<and> standard_cross (Vector3 (Num 0) (Num 0) (Num 1) (Num 1)) (Vector3 (Num 0) (Num 1) (Num 1) (Num 1))
     = Vector3 (Num (- 1)) (Num 0) (Num 0) (Num 1)
   \<and> dot (Vector3 (Num (- 1)) (Num (- 1)) (Num 0) (Num 1)) (Vector3 (Num 0) (Num 1) (Num 1) (Num 1))
     = Num (- 1)"
  by (simp add: standard_cross_def new_Vector3_def)

text \<open>What \<open>cross\<close> returns on two 3D vectors.\<close>

lemma cross_formula:
  "cross (Vector3 x y z w) (Vector3 x' y' z' w')
     = Inr (Vector3 (y * z' - z * y') (z * x' - z * z') (x * y' - y * x') (Num 1))"
  by (simp add: new_Vector3_def)

text \<open>The first and third components of \<open>cross\<close> are the standard ones.\<close>

lemma cross_x_z_standard:
  "cross (Vector3 x y z w) b = Inr c \<Longrightarrow>
   vx c = vx (standard_cross (Vector3 x y z w) b) \<and> vz c = vz (standard_cross (Vector3 x y z w) b)"
  by (auto simp: standard_cross_def new_Vector3_def)

text \<open>
  C2. \<open>normalise\<close> does not divide every component by the magnitude the vector had:
  the getter is read again after \<open>x\<close> has been divided. \<open>(3, 4)\<close> becomes
  \<open>(3/5, 4 / sqrt (409/25))\<close>, not \<open>(3/5, 4/5)\<close>, and its magnitude is then above
  \<open>1.1\<close>.
\<close>

theorem normalise_not_unit:
  "normalise (Vector2 (Num 3) (Num 4) (Num 1))
     = Vector2 (Num (3 / 5)) (Num (4 / sqrt (409 / 25))) (Num 1)
   \<and> standard_normalise (Vector2 (Num 3) (Num 4) (Num 1))
     = Vector2 (Num (3 / 5)) (Num (4 / 5)) (Num 1)
   \<and> nless (Num (11 / 10)) (magnitude (normalise (Vector2 (Num 3) (Num 4) (Num 1))))"
proof -
  have n: "normalise (Vector2 (Num 3) (Num 4) (Num 1))
             = Vector2 (Num (3 / 5)) (Num (4 / sqrt (409 / 25))) (Num 1)"
    by (simp add: Let_def)
  have s: "standard_normalise (Vector2 (Num 3) (Num 4) (Num 1))
             = Vector2 (Num (3 / 5)) (Num (4 / 5)) (Num 1)"
    by (simp add: Let_def)
  have "(11 / 10 :: real) = sqrt ((11 / 10)\<^sup>2)" by simp
  also have "\<dots> < sqrt (3 / 5 * (3 / 5) + 4 / sqrt (409 / 25) * (4 / sqrt (409 / 25)))"
    by (rule real_sqrt_less_mono) (simp add: power2_eq_square field_simps)
  finally show ?thesis using n s by simp
qed

text \<open>The part of C2 that holds: a vector of magnitude 0 is left as it is.\<close>

lemma normalise_zero_unchanged: "magnitude v = Num 0 \<Longrightarrow> normalise v = v"
  by (cases v) simp_all

text \<open>
  C8, as stated, fails: adding a 3D vector to a 2D one raises nothing and returns
  the 2D sum of the \<open>x\<close> and \<open>y\<close> components, the \<open>z\<close> of the argument dropped.
\<close>

theorem mixed_dimensions_no_error:
  "add (Vector2 (Num 1) (Num 2) (Num 1)) (Vector3 (Num 10) (Num 20) (Num 30) (Num 1))
     = Vector2 (Num 11) (Num 22) (Num 1)"
  by (simp add: add_def new_Vector2_def)

text \<open>
  C8, amended. \<open>add\<close>, \<open>sub\<close>, \<open>mult\<close> and \<open>dot\<close> check no dimensionality and raise
  nothing. With a 2D receiver and a 3D argument they work on \<open>x\<close> and \<open>y\<close> alone:
  the result is 2D and the argument's \<open>z\<close> is ignored. With a 3D receiver and a 2D
  argument the missing \<open>z\<close> is read as \<open>undefined\<close>: the \<open>z\<close> of the result, and the
  dot product, are \<open>NaN\<close>.
\<close>

theorem mixed_dimensions_results:
  "add (Vector2 x y w) (Vector3 x' y' z' w') = Vector2 (x + x') (y + y') (Num 1)
   \<and> sub (Vector2 x y w) (Vector3 x' y' z' w') = Vector2 (x - x') (y - y') (Num 1)
   \<and> mult (Vector2 x y w) (Vector3 x' y' z' w') = Vector2 (x * x') (y * y') (Num 1)
   \<and> dot (Vector2 x y w) (Vector3 x' y' z' w') = Num 0 + x * x' + y * y'
   \<and> add (Vector3 x' y' z' w') (Vector2 x y w) = Vector3 (x' + x) (y' + y) NaN (Num 1)
   \<and> sub (Vector3 x' y' z' w') (Vector2 x y w) = Vector3 (x' - x) (y' - y) NaN (Num 1)
   \<and> mult (Vector3 x' y' z' w') (Vector2 x y w) = Vector3 (x' * x) (y' * y) NaN (Num 1)
   \<and> dot (Vector3 x' y' z' w') (Vector2 x y w) = NaN"
  by (cases z') (simp_all add: add_def sub_def mult_def new_Vector2_def new_Vector3_def)

text \<open>
  C10. Every operation that returns a new vector (\<open>add\<close>, \<open>sub\<close>, \<open>scale\<close>, \<open>mult\<close>,
  \<open>cross\<close> and the 2D \<open>normal\<close>) returns it with \<open>w = 1\<close>, whatever the \<open>w\<close> of the
  operands: the result comes from \<open>createVector\<close> and only its components are
  written.
\<close>

theorem result_w_is_one:
  "vw (add v u) = Num 1 \<and> vw (sub v u) = Num 1 \<and> vw (scale v k) = Num 1 \<and> vw (mult v u) = Num 1
   \<and> (\<forall>r. cross v u = Inr r \<longrightarrow> vw r = Num 1)
   \<and> (\<forall>r. normal v = Some r \<longrightarrow> vw r = Num 1)"
  by (cases v) (auto simp: add_def sub_def mult_def new_Vector2_def new_Vector3_def)

theorem result_w_is_one_witness:
  "cross (Vector3 (Num 1) (Num 2) (Num 3) (Num 7)) (Vector3 (Num 4) (Num 5) (Num 6) (Num 9))
     = Inr (Vector3 (Num (- 3)) (Num (- 6)) (Num (- 3)) (Num 1))
   \<and> vw (Vector3 (Num (- 3)) (Num (- 6)) (Num (- 3)) (Num 1)) = Num 1
   \<and> normal (Vector2 (Num 1) (Num 2) (Num 7)) = Some (Vector2 (Num (- 2)) (Num 1) (Num 1))
   \<and> vw (Vector2 (Num (- 2)) (Num 1) (Num 1)) = Num 1
   \<and> vw (add (Vector3 (Num 1) (Num 2) (Num 3) (Num 7)) (Vector3 (Num 4) (Num 5) (Num 6) (Num 9)))
       = Num 1"
  using result_w_is_one [of "Vector3 (Num 1) (Num 2) (Num 3) (Num 7)"
          "Vector3 (Num 4) (Num 5) (Num 6) (Num 9)" "Num 2"]
    result_w_is_one [of "Vector2 (Num 1) (Num 2) (Num 7)" "Vector2 (Num 1) (Num 2) (Num 7)" "Num 2"]
  by (simp add: new_Vector2_def new_Vector3_def)


section \<open>Properties of the matrices\<close>

lemmas matrix_eval =
  multiplyMatrix_def upto_bound_def identity_def diagonal_def create_def index_def upt_conv_Cons

text \<open>
  C3. \<open>identity\<close> is \<open>diagonal(1, 1, 1)\<close> for both families. For \<open>Mat4x4\<close> the fourth
  argument is missing, so the last cell of the diagonal is \<open>0\<close>: \<open>identity()\<close> is not
  \<open>diagonal(1, 1, 1, 1)\<close>, and \<open>multiplyMatrix(m, identity())\<close> for
  \<open>m = diagonal(1, 1, 1, 1)\<close> is not \<open>m\<close>.
\<close>

theorem identity_4x4_not_neutral:
  "identity 4 = map Num [1, 0, 0, 0,  0, 1, 0, 0,  0, 0, 1, 0,  0, 0, 0, 0]
   \<and> diagonal 4 [Num 1, Num 1, Num 1, Num 1]
       = map Num [1, 0, 0, 0,  0, 1, 0, 0,  0, 0, 1, 0,  0, 0, 0, 1]
   \<and> multiplyMatrix 4 (diagonal 4 [Num 1, Num 1, Num 1, Num 1]) (identity 4)
       = Inr (map Num [1, 0, 0, 0,  0, 1, 0, 0,  0, 0, 1, 0,  0, 0, 0, 0])"
  by (simp add: matrix_eval)

text \<open>The part of C3 that holds: for \<open>Mat3x3\<close>, \<open>identity()\<close> has a 1 in every cell of
  the diagonal and is neutral on the right for every matrix of nine numbers.\<close>

lemma identity_3x3: "identity 3 = map Num [1, 0, 0,  0, 1, 0,  0, 0, 1]"
  by (simp add: matrix_eval)

lemma list_of_nine:
  "length (rs :: 'a list) = 9 \<Longrightarrow> \<exists>a0 a1 a2 a3 a4 a5 a6 a7 a8. rs = [a0, a1, a2, a3, a4, a5, a6, a7, a8]"
  by (auto simp: eval_nat_numeral length_Suc_conv)

lemma identity_3x3_neutral:
  assumes "length rs = 9"
  shows "multiplyMatrix 3 (map Num rs) (identity 3) = Inr (map Num rs)"
proof -
  obtain a0 a1 a2 a3 a4 a5 a6 a7 a8 where "rs = [a0, a1, a2, a3, a4, a5, a6, a7, a8]"
    using list_of_nine [OF assms] by blast
  then show ?thesis by (simp add: matrix_eval)
qed


section \<open>Properties of the meshes\<close>

lemmas mesh_eval =
  new_Mesh_def PARSE_MESH_DATA_def parse_key_def startsWith_def index_def
  parseFloat_def is_space_def is_digit_def read_sign_def digits_value_def read_exponent_def
  updateGeometry_def face_triangle_def new_Triangle_def new_Vector3_def store_def empty_color_def

text \<open>
  C9. The mesh built from \<open>"v 0 0 0\nv 1 0 0\nv 0 1 0\nf 1 2 3\nc 120 50 50"\<close> has
  exactly one triangle, with the vertices \<open>(0,0,0)\<close>, \<open>(1,0,0)\<close>, \<open>(0,1,0)\<close> in this
  order and the colour \<open>h = 120\<close>, \<open>s = 50\<close>, \<open>l = 50\<close>, \<open>a = 1\<close>.
\<close>

theorem minimal_mesh_round_trip:
  "\<exists>m. new_Mesh minimal_source = Inr m
     \<and> triangles m =
        [\<lparr>t_vertices = [Vector3 (Num 0) (Num 0) (Num 0) (Num 1),
                        Vector3 (Num 1) (Num 0) (Num 0) (Num 1),
                        Vector3 (Num 0) (Num 1) (Num 0) (Num 1)],
          t_color = \<lparr>col_h = Some (Num 120), col_s = Some (Num 50), col_l = Some (Num 50),
                     col_a = Some (Num 1)\<rparr>\<rparr>]"
  by (simp add: minimal_source_def mesh_eval)

text \<open>\<open>updateGeometry\<close> never shortens \<open>triangles\<close>: it writes one triangle per face, by
  index, into the list that is there.\<close>

lemma store_length: "i \<le> length xs \<Longrightarrow> length (store xs i x) = max (length xs) (Suc i)"
  by (auto simp: store_def)

lemma updateGeometry_loop_length:
  "updateGeometry_loop this fs i = Inr this' \<Longrightarrow> i \<le> length (triangles this) \<Longrightarrow>
   length (triangles this') = max (length (triangles this)) (i + length fs)"
proof (induction fs arbitrary: this i)
  case Nil
  then show ?case by simp
next
  case (Cons f fs)
  then show ?case
    by (auto split: sum.splits simp: store_length)
qed

lemma updateGeometry_length:
  "updateGeometry this = Inr this' \<Longrightarrow>
   length (triangles this') = max (length (triangles this)) (length (faces this))"
  using updateGeometry_loop_length [of this "faces this" 0 this']
  by (simp add: updateGeometry_def)

text \<open>
  C5. \<open>updateGeometry\<close> does not rebuild \<open>triangles\<close> from scratch. A mesh is built
  with two faces, the second face is removed and \<open>updateGeometry\<close> called again:
  \<open>faces\<close> has one entry, \<open>triangles\<close> still two, the second being the triangle of
  the face that was removed.
\<close>

theorem updateGeometry_keeps_stale_triangle:
  "\<exists>m m'. new_Mesh two_faces_source = Inr m
     \<and> faces m = [[Num 1, Num 2, Num 3], [Num 3, Num 2, Num 1]]
     \<and> updateGeometry (m\<lparr>faces := [[Num 1, Num 2, Num 3]]\<rparr>) = Inr m'
     \<and> length (faces m') = 1
     \<and> length (triangles m') = 2
     \<and> triangles m' ! 1 = second_face_triangle"
  by (simp add: two_faces_source_def second_face_triangle_def mesh_eval)


section \<open>Properties of the scene\<close>

text \<open>
  C7. \<open>add\<close> of a value that is not a \<open>Mesh\<close> throws a \<open>TypeError\<close> and leaves the scene
  as it was; \<open>add\<close> of a \<open>Mesh\<close> appends it to \<open>objects\<close>.
\<close>

theorem add_object_checks_type:
  "((\<forall>m. x \<noteq> JMesh m) \<longrightarrow> add_object sc x = Inl (TypeError, sc))
   \<and> add_object sc (JMesh m) = Inr (sc\<lparr>objects := objects sc @ [m]\<rparr>)"
  by (cases x) simp_all

theorem add_object_checks_type_witness:
  "(\<forall>m. JNumber (Num 3) \<noteq> JMesh m)
   \<and> add_object (new_Scene (Num 300) (Num 150)) (JNumber (Num 3))
       = Inl (TypeError, new_Scene (Num 300) (Num 150))"
  using add_object_checks_type [of "JNumber (Num 3)" "new_Scene (Num 300) (Num 150)"]
  by simp


section \<open>Properties of \<open>process\<close>\<close>

lemma sqrt3_pos: "c \<noteq> 0 \<Longrightarrow> 0 < sqrt (p * p + q * q + c * c)" for c :: real
proof -
  assume "c \<noteq> 0"
  then have "0 < c * c" by (simp add: zero_less_mult_iff) (metis linorder_neqE_linordered_idom)
  moreover have "0 \<le> p * p" "0 \<le> q * q" by simp_all
  ultimately have "0 < p * p + q * q + c * c" by linarith
  then show ?thesis by simp
qed

lemma hypot3_pos:
  assumes "c \<noteq> 0"
  shows "\<exists>m. hypot3 (Num p) (Num q) (Num c) = Num m \<and> 0 < m"
  using sqrt3_pos [OF assms] by simp

text \<open>In \<open>normalise\<close> no divisor is 0: on a vector of numbers whose magnitude is not 0
  every quotient is a number.\<close>

lemma hypot3_nonzero:
  assumes "p \<noteq> 0 \<or> q \<noteq> 0 \<or> c \<noteq> 0"
  shows "\<exists>m. hypot3 (Num p) (Num q) (Num c) = Num m \<and> 0 < m"
proof -
  have "0 < sqrt (p * p + q * q + c * c)"
    using assms sqrt3_pos [of c p q] sqrt3_pos [of q p c] sqrt3_pos [of p c q]
    by (auto simp: add.commute add.left_commute)
  then show ?thesis by simp
qed

lemma hypot2_nonzero:
  assumes "p \<noteq> 0 \<or> q \<noteq> 0"
  shows "\<exists>m. hypot2 (Num p) (Num q) = Num m \<and> 0 < m"
proof -
  have "0 < sqrt (p * p + q * q)"
    using assms sqrt3_pos [of q 0 p] sqrt3_pos [of p 0 q]
    by (auto simp: add.commute)
  then show ?thesis by simp
qed

lemma normalise_divisor_nonzero:
  "magnitude (Vector3 (Num p) (Num q) (Num c) w) \<noteq> Num 0 \<Longrightarrow>
     \<exists>p' q' c'. normalise (Vector3 (Num p) (Num q) (Num c) w) = Vector3 (Num p') (Num q') (Num c') w"
  "magnitude (Vector2 (Num p) (Num q) w) \<noteq> Num 0 \<Longrightarrow>
     \<exists>p' q'. normalise (Vector2 (Num p) (Num q) w) = Vector2 (Num p') (Num q') w"
proof -
  assume nz: "magnitude (Vector3 (Num p) (Num q) (Num c) w) \<noteq> Num 0"
  then have n0: "p \<noteq> 0 \<or> q \<noteq> 0 \<or> c \<noteq> 0" by auto
  obtain m0 where m0: "hypot3 (Num p) (Num q) (Num c) = Num m0" "0 < m0"
    using hypot3_nonzero [OF n0] by blast
  have "p / m0 \<noteq> 0 \<or> q \<noteq> 0 \<or> c \<noteq> 0" using n0 m0 by auto
  then obtain m1 where m1: "hypot3 (Num (p / m0)) (Num q) (Num c) = Num m1" "0 < m1"
    using hypot3_nonzero by blast
  have "p / m0 \<noteq> 0 \<or> q / m1 \<noteq> 0 \<or> c \<noteq> 0" using n0 m0 m1 by auto
  then obtain m2 where m2: "hypot3 (Num (p / m0)) (Num (q / m1)) (Num c) = Num m2" "0 < m2"
    using hypot3_nonzero by blast
  have "normalise (Vector3 (Num p) (Num q) (Num c) w)
          = Vector3 (Num (p / m0)) (Num (q / m1)) (Num (c / m2)) w"
    using m0 m1 m2 by (simp add: Let_def del: hypot3.simps)
  then show "\<exists>p' q' c'. normalise (Vector3 (Num p) (Num q) (Num c) w)
                = Vector3 (Num p') (Num q') (Num c') w"
    by blast
next
  assume nz: "magnitude (Vector2 (Num p) (Num q) w) \<noteq> Num 0"
  then have n0: "p \<noteq> 0 \<or> q \<noteq> 0" by auto
  obtain m0 where m0: "hypot2 (Num p) (Num q) = Num m0" "0 < m0"
    using hypot2_nonzero [OF n0] by blast
  have "p / m0 \<noteq> 0 \<or> q \<noteq> 0" using n0 m0 by auto
  then obtain m1 where m1: "hypot2 (Num (p / m0)) (Num q) = Num m1" "0 < m1"
    using hypot2_nonzero by blast
  have "normalise (Vector2 (Num p) (Num q) w) = Vector2 (Num (p / m0)) (Num (q / m1)) w"
    using m0 m1 by (simp add: Let_def del: hypot2.simps)
  then show "\<exists>p' q'. normalise (Vector2 (Num p) (Num q) w) = Vector2 (Num p') (Num q') w"
    by blast
qed

text \<open>\<open>normalise\<close> keeps the sign of \<open>z\<close>: each divisor is a magnitude, and positive as
  soon as \<open>z\<close> is not 0. The same holds of the specification's \<open>normalise\<close>.\<close>

lemma normalise_z_negative:
  "nless (toNumber (vz (normalise (Vector3 x y z w)))) (Num 0)
     = (x \<noteq> NaN \<and> y \<noteq> NaN \<and> nless z (Num 0))"
proof (cases z)
  case NaN
  then show ?thesis by (cases x; cases y) (simp_all add: Let_def)
next
  case (Num c)
  show ?thesis
  proof (cases "c = 0")
    case True
    with Num show ?thesis by (simp add: Let_def)
  next
    case False
    show ?thesis
    proof (cases x)
      case NaN
      then show ?thesis using Num by (simp add: Let_def)
    next
      case xa: (Num a)
      show ?thesis
      proof (cases y)
        case NaN
        then show ?thesis using Num xa by (simp add: Let_def)
      next
        case yb: (Num b)
        obtain m0 where m0: "hypot3 (Num a) (Num b) (Num c) = Num m0" "0 < m0"
          using hypot3_pos [OF False] by blast
        obtain m1 where m1: "hypot3 (Num (a / m0)) (Num b) (Num c) = Num m1" "0 < m1"
          using hypot3_pos [OF False] by blast
        obtain m2 where m2: "hypot3 (Num (a / m0)) (Num (b / m1)) (Num c) = Num m2" "0 < m2"
          using hypot3_pos [OF False] by blast
        have "normalise (Vector3 x y z w)
                = Vector3 (Num (a / m0)) (Num (b / m1)) (Num (c / m2)) w"
          using Num xa yb m0 m1 m2 by (simp add: Let_def del: hypot3.simps)
        then show ?thesis using Num xa yb m2 by (simp add: divide_less_0_iff)
      qed
    qed
  qed
qed

lemma standard_normalise_z_negative:
  "nless (toNumber (vz (standard_normalise (Vector3 x y z w)))) (Num 0)
     = (x \<noteq> NaN \<and> y \<noteq> NaN \<and> nless z (Num 0))"
proof (cases z)
  case NaN
  then show ?thesis by (cases x; cases y) (simp_all add: Let_def)
next
  case (Num c)
  show ?thesis
  proof (cases "c = 0")
    case True
    with Num show ?thesis by (simp add: Let_def)
  next
    case False
    show ?thesis
    proof (cases x)
      case NaN
      then show ?thesis using Num by (simp add: Let_def)
    next
      case xa: (Num a)
      show ?thesis
      proof (cases y)
        case NaN
        then show ?thesis using Num xa by (simp add: Let_def)
      next
        case yb: (Num b)
        obtain m0 where m0: "hypot3 (Num a) (Num b) (Num c) = Num m0" "0 < m0"
          using hypot3_pos [OF False] by blast
        have "standard_normalise (Vector3 x y z w)
                = Vector3 (Num (a / m0)) (Num (b / m0)) (Num (c / m0)) w"
          using Num xa yb m0 by (simp add: Let_def del: hypot3.simps)
        then show ?thesis using Num xa yb m0 by (simp add: divide_less_0_iff)
      qed
    qed
  qed
qed

text \<open>The test of the code and the test of the specification agree, although \<open>cross\<close>
  and \<open>normalise\<close> are not the standard ones: the \<open>z\<close> of \<open>cross\<close> is.\<close>

lemma cull_test_agrees:
  assumes "cross u v = Inr c"
  shows "nless (toNumber (vz (normalise c))) (Num 0)
         = nless (toNumber (vz (standard_normalise (standard_cross u v)))) (Num 0)"
proof (cases u)
  case (Vector2 x y w)
  with assms show ?thesis by simp
next
  case (Vector3 x y z w)
  with assms have c: "c = Vector3 (y * toNumber (vz v) - z * toNumber (vy v))
                      (z * toNumber (vx v) - z * toNumber (vz v))
                      (x * toNumber (vy v) - y * toNumber (vx v)) (Num 1)"
    by (auto simp: new_Vector3_def)
  show ?thesis
    unfolding c standard_cross_def Vector3
    by (auto simp: normalise_z_negative standard_normalise_z_negative
          simp del: normalise.simps standard_normalise.simps dest: nless_not_NaN)
qed

lemma project_toRaster [simp]: "project (sc\<lparr>toRaster := x\<rparr>) = project sc"
proof
  fix v show "project (sc\<lparr>toRaster := x\<rparr>) v = project sc v"
    by (cases "multiplyVector 4 (projectionMatrix sc) v"; simp add: project_def)
       (rename_tac p, case_tac p; simp)
qed

lemma paint_record_toRaster [simp]:
  "paint_record m (sc\<lparr>toRaster := x\<rparr>) tri ts = paint_record m sc tri ts"
  by (induction m sc tri ts rule: paint_record.induct) (simp_all add: Let_def)

lemma process_triangle_toRaster [simp]:
  "process_triangle R m (sc\<lparr>toRaster := x\<rparr>) tri = process_triangle R m sc tri"
  by (simp add: process_triangle_def split: sum.splits)

lemma face_normal_agrees:
  assumes "face_normal (v0 # v1 # v2 # rest) = Inr c"
  shows "nless (toNumber (vz c)) (Num 0) = nless (toNumber (vz (spec_normal v0 v1 v2))) (Num 0)"
proof -
  from assms obtain c' where c': "cross (sub v1 v0) (sub v2 v0) = Inr c'" and c: "c = normalise c'"
    by (auto simp: Let_def split: sum.splits)
  show ?thesis unfolding c spec_normal_def by (rule cull_test_agrees [OF c'])
qed

lemma face_normal_three:
  assumes "face_normal ts = Inr c"
  obtains v0 v1 v2 rest where "ts = v0 # v1 # v2 # rest"
  using assms by (cases ts rule: face_normal.cases) simp_all

text \<open>One triangle: when its processing throws nothing, a record is made exactly when
  the specification's normal has a negative \<open>z\<close>.\<close>

lemma process_triangle_kept:
  assumes "process_triangle R m sc tri = Inr res"
  shows "(res \<noteq> None) = faces_camera R m tri"
proof -
  from assms obtain ts where ts: "mapE (transform_vertex R m) (t_vertices tri) = Inr ts"
    by (auto simp: process_triangle_def split: sum.splits)
  with assms obtain c where c: "face_normal ts = Inr c"
    by (auto simp: process_triangle_def split: sum.splits)
  then obtain v0 v1 v2 rest where l: "ts = v0 # v1 # v2 # rest"
    by (rule face_normal_three)
  have "(res \<noteq> None) = nless (toNumber (vz c)) (Num 0)"
    using assms ts c by (auto simp: process_triangle_def split: sum.splits if_splits)
  also have "\<dots> = nless (toNumber (vz (spec_normal v0 v1 v2))) (Num 0)"
    using c unfolding l by (rule face_normal_agrees)
  also have "\<dots> = faces_camera R m tri"
    by (simp add: faces_camera_def ts l)
  finally show ?thesis .
qed

lemma process_loop_appends:
  assumes "process_loop R m sc tris = Inr sc'"
  shows "\<exists>rs. sc' = sc\<lparr>toRaster := toRaster sc @ rs\<rparr>
          \<and> list_all2 (\<lambda>r tri. process_triangle R m sc tri = Inr (Some r)) rs
               (filter (faces_camera R m) tris)"
  using assms
proof (induction tris arbitrary: sc)
  case Nil
  then show ?case by simp
next
  case (Cons tri tris)
  from Cons.prems obtain res where res: "process_triangle R m sc tri = Inr res"
    by (auto split: sum.splits)
  show ?case
  proof (cases res)
    case None
    with res have nf: "\<not> faces_camera R m tri" using process_triangle_kept by blast
    from Cons.prems res None have "process_loop R m sc tris = Inr sc'" by simp
    from Cons.IH [OF this] nf show ?thesis by simp
  next
    case (Some r)
    with res have f: "faces_camera R m tri" using process_triangle_kept by blast
    from Cons.prems res Some
    have "process_loop R m (sc\<lparr>toRaster := toRaster sc @ [r]\<rparr>) tris = Inr sc'" by simp
    from Cons.IH [OF this] obtain rs where
      rs: "sc' = sc\<lparr>toRaster := toRaster sc @ [r]\<rparr>
                   \<lparr>toRaster := toRaster (sc\<lparr>toRaster := toRaster sc @ [r]\<rparr>) @ rs\<rparr>"
        "list_all2 (\<lambda>r tri. process_triangle R m sc tri = Inr (Some r)) rs
           (filter (faces_camera R m) tris)"
      by auto
    show ?thesis
      apply (rule exI [of _ "r # rs"])
      using rs f res Some by simp
  qed
qed

text \<open>The two rotation matrices have sixteen cells each, so their product never throws.\<close>

lemma rotation_matrix_returns: "\<exists>mRotate. rotation_matrix m sc = Inr mRotate"
  by (simp add: rotation_matrix_def multiplyMatrix_def pitchRotation_def rollRotation_def
        create_def Let_def)

text \<open>When the loop throws, it is on some triangle \<open>n\<close>, and the records appended are
  those of the triangles before it.\<close>

lemma process_loop_throws:
  assumes "process_loop R m sc tris = Inl (e, sc')"
  shows "\<exists>rs n. n < length tris
          \<and> sc' = sc\<lparr>toRaster := toRaster sc @ rs\<rparr>
          \<and> list_all2 (\<lambda>r tri. process_triangle R m sc tri = Inr (Some r)) rs
               (filter (faces_camera R m) (take n tris))
          \<and> process_triangle R m sc (tris ! n) = Inl e"
  using assms
proof (induction tris arbitrary: sc)
  case Nil
  then show ?case by simp
next
  case (Cons tri tris)
  show ?case
  proof (cases "process_triangle R m sc tri")
    case (Inl e')
    with Cons.prems have "e' = e" "sc' = sc" by simp_all
    then show ?thesis using Inl
      by (intro exI [of _ "[]"] exI [of _ 0]) simp
  next
    case (Inr res)
    show ?thesis
    proof (cases res)
      case None
      with Inr have nf: "\<not> faces_camera R m tri" using process_triangle_kept by blast
      from Cons.prems Inr None have "process_loop R m sc tris = Inl (e, sc')" by simp
      from Cons.IH [OF this] obtain rs n where
        "n < length tris" "sc' = sc\<lparr>toRaster := toRaster sc @ rs\<rparr>"
        "list_all2 (\<lambda>r tri. process_triangle R m sc tri = Inr (Some r)) rs
           (filter (faces_camera R m) (take n tris))"
        "process_triangle R m sc (tris ! n) = Inl e"
        by blast
      then show ?thesis using nf
        by (intro exI [of _ rs] exI [of _ "Suc n"]) simp
    next
      case (Some r)
      with Inr have f: "faces_camera R m tri" using process_triangle_kept by blast
      from Cons.prems Inr Some
      have "process_loop R m (sc\<lparr>toRaster := toRaster sc @ [r]\<rparr>) tris = Inl (e, sc')" by simp
      from Cons.IH [OF this] obtain rs n where
        "n < length tris"
        "sc' = sc\<lparr>toRaster := toRaster sc @ [r]\<rparr>
                 \<lparr>toRaster := toRaster (sc\<lparr>toRaster := toRaster sc @ [r]\<rparr>) @ rs\<rparr>"
        "list_all2 (\<lambda>r tri. process_triangle R m sc tri = Inr (Some r)) rs
           (filter (faces_camera R m) (take n tris))"
        "process_triangle R m sc (tris ! n) = Inl e"
        by auto
      then show ?thesis using f Inr Some
        by (intro exI [of _ "r # rs"] exI [of _ "Suc n"]) simp
    qed
  qed
qed

text \<open>
  C6. \<open>process\<close> appends a record for a triangle if and only if the \<open>z\<close> of
  \<open>normalise(cross(v1 - v0, v2 - v0))\<close>, on the transformed vertices, is negative.
  When \<open>process\<close> returns, the scene differs from the one it was given by the records
  appended to \<open>toRaster\<close>, and these are, in order, the records of exactly those
  triangles of the mesh whose normal has a negative \<open>z\<close>. When it throws, on the
  triangle of index \<open>n\<close>, the same holds of the triangles before \<open>n\<close>. Either way a
  triangle whose normal has a \<open>z\<close> that is not negative leaves no record.
\<close>

theorem process_keeps_negative_z:
  "(process update this scene = Inr (this', scene') \<longrightarrow>
      (\<exists>mRotate rs.
           rotation_matrix this' scene = Inr mRotate
         \<and> scene' = scene\<lparr>toRaster := toRaster scene @ rs\<rparr>
         \<and> list_all2 (\<lambda>r tri. process_triangle mRotate this' scene tri = Inr (Some r)) rs
             (filter (faces_camera mRotate this') (triangles this'))))
   \<and> (process update this scene = Inl (e, (this', scene')) \<longrightarrow>
      (\<exists>mRotate rs n.
           rotation_matrix this' scene = Inr mRotate
         \<and> n < length (triangles this')
         \<and> process_triangle mRotate this' scene (triangles this' ! n) = Inl e
         \<and> scene' = scene\<lparr>toRaster := toRaster scene @ rs\<rparr>
         \<and> list_all2 (\<lambda>r tri. process_triangle mRotate this' scene tri = Inr (Some r)) rs
             (filter (faces_camera mRotate this') (take n (triangles this')))))"
proof -
  define this1 where "this1 = (case update of Some f \<Rightarrow> f this | None \<Rightarrow> this)"
  obtain mRotate where R: "rotation_matrix this1 scene = Inr mRotate"
    using rotation_matrix_returns by blast
  have p: "process update this scene =
             (case process_loop mRotate this1 scene (triangles this1) of
                Inl (e, scene') \<Rightarrow> Inl (e, (this1, scene'))
              | Inr scene' \<Rightarrow> Inr (this1, scene'))"
    using R by (simp add: process_def Let_def flip: this1_def)
  show ?thesis
  proof (intro conjI impI)
    assume a: "process update this scene = Inr (this', scene')"
    then have "process_loop mRotate this1 scene (triangles this1) = Inr scene'" and t: "this' = this1"
      unfolding p by (auto split: sum.splits prod.splits)
    from process_loop_appends [OF this(1)] R t
    show "\<exists>mRotate rs.
           rotation_matrix this' scene = Inr mRotate
         \<and> scene' = scene\<lparr>toRaster := toRaster scene @ rs\<rparr>
         \<and> list_all2 (\<lambda>r tri. process_triangle mRotate this' scene tri = Inr (Some r)) rs
             (filter (faces_camera mRotate this') (triangles this'))"
      by auto
  next
    assume a: "process update this scene = Inl (e, (this', scene'))"
    then have "process_loop mRotate this1 scene (triangles this1) = Inl (e, scene')" and t: "this' = this1"
      unfolding p by (auto split: sum.splits prod.splits)
    from process_loop_throws [OF this(1)] R t
    show "\<exists>mRotate rs n.
           rotation_matrix this' scene = Inr mRotate
         \<and> n < length (triangles this')
         \<and> process_triangle mRotate this' scene (triangles this' ! n) = Inl e
         \<and> scene' = scene\<lparr>toRaster := toRaster scene @ rs\<rparr>
         \<and> list_all2 (\<lambda>r tri. process_triangle mRotate this' scene tri = Inr (Some r)) rs
             (filter (faces_camera mRotate this') (take n (triangles this')))"
      by auto
  qed
qed

text \<open>Evaluating \<open>process\<close> on the examples.\<close>

lemmas process_eval =
  process_def rotation_matrix_def pitchRotation_def rollRotation_def process_triangle_def
  transform_vertex_def multiplyVector_def project_def add_def sub_def mult_def
  new_Vector2_def new_Vector3_def Let_def new_Scene_def updateProjectionMatrix_def

lemma two_faces_mesh_parsed: "new_Mesh two_faces_source = Inr two_faces_mesh"
  by (simp add: two_faces_source_def two_faces_mesh_def second_face_triangle_def mesh_eval)

lemma two_faces_rotation:
  "rotation_matrix two_faces_mesh (new_Scene (Num 300) (Num 150)) = Inr no_rotation"
  by (simp add: two_faces_mesh_def no_rotation_def process_eval matrix_eval)

lemma two_faces_processed:
  "process None two_faces_mesh (new_Scene (Num 300) (Num 150))
     = Inr (two_faces_mesh, (new_Scene (Num 300) (Num 150))\<lparr>toRaster := [second_face_record]\<rparr>)"
  by (simp add: two_faces_mesh_def second_face_triangle_def second_face_record_def
        process_eval matrix_eval)

lemma two_faces_culled:
  "filter (faces_camera no_rotation two_faces_mesh) (triangles two_faces_mesh) = [second_face_triangle]"
  by (simp add: two_faces_mesh_def second_face_triangle_def no_rotation_def faces_camera_def
        spec_normal_def standard_cross_def process_eval matrix_eval)

lemma broken_processed:
  "process None broken_mesh (new_Scene (Num 300) (Num 150))
     = Inl (TypeError,
            (broken_mesh, (new_Scene (Num 300) (Num 150))\<lparr>toRaster := [second_face_record]\<rparr>))"
  by (simp add: broken_mesh_def two_faces_mesh_def second_face_triangle_def second_face_record_def
        process_eval matrix_eval)

text \<open>The mesh of two faces in a new scene: the first face is culled, the second
  kept. The mesh with the short triangle: the record of the first triangle is
  appended, the second throws.\<close>

theorem process_keeps_negative_z_witness:
  "process None two_faces_mesh (new_Scene (Num 300) (Num 150))
     = Inr (two_faces_mesh, (new_Scene (Num 300) (Num 150))\<lparr>toRaster := [second_face_record]\<rparr>)
   \<and> (\<exists>mRotate rs.
         rotation_matrix two_faces_mesh (new_Scene (Num 300) (Num 150)) = Inr mRotate
       \<and> (new_Scene (Num 300) (Num 150))\<lparr>toRaster := [second_face_record]\<rparr>
           = (new_Scene (Num 300) (Num 150))
               \<lparr>toRaster := toRaster (new_Scene (Num 300) (Num 150)) @ rs\<rparr>
       \<and> list_all2 (\<lambda>r tri. process_triangle mRotate two_faces_mesh
                               (new_Scene (Num 300) (Num 150)) tri = Inr (Some r)) rs
           (filter (faces_camera mRotate two_faces_mesh) (triangles two_faces_mesh)))
   \<and> filter (faces_camera no_rotation two_faces_mesh) (triangles two_faces_mesh)
       = [second_face_triangle]
   \<and> process None broken_mesh (new_Scene (Num 300) (Num 150))
       = Inl (TypeError,
              (broken_mesh, (new_Scene (Num 300) (Num 150))\<lparr>toRaster := [second_face_record]\<rparr>))
   \<and> (\<exists>mRotate rs n.
         rotation_matrix broken_mesh (new_Scene (Num 300) (Num 150)) = Inr mRotate
       \<and> n < length (triangles broken_mesh)
       \<and> process_triangle mRotate broken_mesh (new_Scene (Num 300) (Num 150))
           (triangles broken_mesh ! n) = Inl TypeError
       \<and> (new_Scene (Num 300) (Num 150))\<lparr>toRaster := [second_face_record]\<rparr>
           = (new_Scene (Num 300) (Num 150))
               \<lparr>toRaster := toRaster (new_Scene (Num 300) (Num 150)) @ rs\<rparr>
       \<and> list_all2 (\<lambda>r tri. process_triangle mRotate broken_mesh
                               (new_Scene (Num 300) (Num 150)) tri = Inr (Some r)) rs
           (filter (faces_camera mRotate broken_mesh) (take n (triangles broken_mesh))))"
  using two_faces_processed broken_processed two_faces_culled
    process_keeps_negative_z [of None two_faces_mesh "new_Scene (Num 300) (Num 150)"
      two_faces_mesh "(new_Scene (Num 300) (Num 150))\<lparr>toRaster := [second_face_record]\<rparr>"]
    process_keeps_negative_z [of None broken_mesh "new_Scene (Num 300) (Num 150)"
      broken_mesh "(new_Scene (Num 300) (Num 150))\<lparr>toRaster := [second_face_record]\<rparr>" TypeError]
  by blast


section \<open>Properties of \<open>render\<close>\<close>

text \<open>The model of the engine's sort does sort when the comparison function returns a
  number of the right sign.\<close>

lemma v8_sort_sorts_numbers:
  "v8_sort (\<lambda>p q. q - p) [5, 1, 3 :: int] = [5, 3, 1]"
  "v8_sort (\<lambda>p q. p - q) [5, 1, 3 :: int] = [1, 3, 5]"
  by (simp_all add: v8_sort_def insert_pivot_def upt_conv_Cons Let_def)

text \<open>A comparison function that never returns a negative number makes the whole array
  one run, which the sort leaves as it is. \<open>compare_zAverage\<close> is such a function: it
  returns 0 or 1, and is not a consistent comparison function, since it calls 5 and 1
  equal when asked one way and ordered when asked the other way.\<close>

lemma run_extension_nonneg:
  assumes "\<And>a b. 0 \<le> cmp a b"
  shows "run_extension cmp False p xs = length xs"
  by (induction xs arbitrary: p) (simp_all add: Let_def not_less assms)

lemma v8_sort_nonneg:
  assumes "\<And>a b. 0 \<le> cmp a b"
  shows "v8_sort cmp xs = xs"
proof (cases xs)
  case Nil
  then show ?thesis by (simp add: v8_sort_def)
next
  case (Cons elementHigh t)
  show ?thesis
  proof (cases t)
    case Nil
    with Cons show ?thesis by (simp add: v8_sort_def)
  next
    case (Cons elementLow rest)
    have "\<not> cmp elementLow elementHigh < 0" using assms by (simp add: not_less)
    then show ?thesis
      using \<open>xs = elementHigh # t\<close> Cons
      by (simp add: v8_sort_def Let_def run_extension_nonneg [OF assms])
  qed
qed

lemma compare_zAverage_not_symmetric:
  "zAverage p = Num 5 \<Longrightarrow> zAverage q = Num 1 \<Longrightarrow>
   compare_zAverage p q = 0 \<and> compare_zAverage q p = 1"
  by (simp add: compare_zAverage_def)

lemma compare_zAverage_nonneg: "0 \<le> compare_zAverage p q"
  by (simp add: compare_zAverage_def)

lemma render_list_v8_keeps_order:
  "render_list v8_sort updates this
     = (case process_objects updates [] (objects this) (this\<lparr>toRaster := []\<rparr>) of
          Inl (e, scene) \<Rightarrow> Inl (e, scene)
        | Inr scene \<Rightarrow> Inr scene)"
  by (simp add: render_list_def v8_sort_nonneg [OF compare_zAverage_nonneg] split: sum.splits)

lemma depth_mesh_parsed: "new_Mesh depth_source = Inr depth_mesh"
  by (simp add: depth_source_def depth_mesh_def mesh_eval)

lemmas render_eval =
  render_def render_list_def v8_sort_def insert_pivot_def compare_zAverage_def
  paint_vertices_def paint_polygon_def hsla_def painted_hues_def

text \<open>
  C4. \<open>render\<close> sorts with \<open>(a, b) => a.zAverage < b.zAverage\<close>, which returns a
  boolean and so never a negative number. On V8 the records are then painted in the
  order in which \<open>process\<close> pushed them: for the depths 5, 1, 3 the order is 5, 1, 3,
  not 5, 3, 1.
\<close>

theorem render_paints_in_insertion_order:
  "new_Mesh depth_source = Inr depth_mesh
   \<and> add_object (new_Scene (Num 300) (Num 150)) (JMesh depth_mesh) = Inr depth_scene
   \<and> (\<exists>scene. render_list v8_sort (\<lambda>i. None) depth_scene = Inr scene
         \<and> map zAverage (toRaster scene) = [Num 5, Num 1, Num 3])
   \<and> (\<exists>scene. render v8_sort (\<lambda>i. None) depth_scene = Inr scene
         \<and> painted_hues (ctx scene) = [Some (Num 0), Some (Num 120), Some (Num 240)])"
proof -
  have a: "add_object (new_Scene (Num 300) (Num 150)) (JMesh depth_mesh) = Inr depth_scene"
    by (simp add: depth_scene_def new_Scene_def updateProjectionMatrix_def)
  have l: "\<exists>scene. render_list v8_sort (\<lambda>i. None) depth_scene = Inr scene
         \<and> map zAverage (toRaster scene) = [Num 5, Num 1, Num 3]"
    by (simp add: depth_scene_def depth_mesh_def render_eval process_eval matrix_eval)
  have r: "\<exists>scene. render v8_sort (\<lambda>i. None) depth_scene = Inr scene
         \<and> painted_hues (ctx scene) = [Some (Num 0), Some (Num 120), Some (Num 240)]"
    by (simp add: depth_scene_def depth_mesh_def render_eval process_eval matrix_eval)
  show ?thesis using depth_mesh_parsed a l r by blast
qed

end
